theory Spec2Isabelle
  imports Main
begin

section \<open>Python strings\<close>

text \<open>
  A Python \<open>str\<close> is modelled as a \<open>string\<close> whose characters stand for the code points
  0 to 255, so that \<open>length\<close>, \<open>take\<close> and indexing count what Python counts. The string
  methods below are the ones \<open>app.py\<close> calls, with Python's behaviour on that range.
\<close>

definition isspace :: "char \<Rightarrow> bool" where
  \<comment> \<open>\<open>str.isspace\<close> on one character: the code points that \<open>str.strip()\<close> removes.\<close>
  "isspace c = (of_char c \<in> {9, 10, 11, 12, 13, 28, 29, 30, 31, 32, 133, 160 :: nat})"

definition strip :: "string \<Rightarrow> string" where
  \<comment> \<open>\<open>s.strip()\<close>\<close>
  "strip s = rev (dropWhile isspace (rev (dropWhile isspace s)))"

definition strip_chars :: "string \<Rightarrow> string \<Rightarrow> string" where
  \<comment> \<open>\<open>s.strip(chars)\<close>\<close>
  "strip_chars chars s =
     rev (dropWhile (\<lambda>c. c \<in> set chars) (rev (dropWhile (\<lambda>c. c \<in> set chars) s)))"

definition lower_char :: "char \<Rightarrow> char" where
  "lower_char c =
     (let n = (of_char c :: nat)
      in if (65 \<le> n \<and> n \<le> 90) \<or> (192 \<le> n \<and> n \<le> 222 \<and> n \<noteq> 215)
         then char_of (n + 32) else c)"

definition lower :: "string \<Rightarrow> string" where
  \<comment> \<open>\<open>s.lower()\<close>\<close>
  "lower s = map lower_char s"

definition startswith :: "string \<Rightarrow> string \<Rightarrow> bool" where
  \<comment> \<open>\<open>s.startswith(pre)\<close>\<close>
  "startswith pre s = (take (length pre) s = pre)"

fun contains :: "string \<Rightarrow> string \<Rightarrow> bool" where
  \<comment> \<open>\<open>sub in s\<close>\<close>
  "contains sub [] = (sub = [])"
| "contains sub (c # cs) = (startswith sub (c # cs) \<or> contains sub cs)"

fun split_on :: "char \<Rightarrow> string \<Rightarrow> string list" where
  \<comment> \<open>\<open>s.split(sep)\<close> for a one-character separator\<close>
  "split_on sep [] = [[]]"
| "split_on sep (c # cs) =
     (if c = sep then [] # split_on sep cs
      else (case split_on sep cs of [] \<Rightarrow> [[c]] | w # ws \<Rightarrow> (c # w) # ws))"

definition before_first :: "char \<Rightarrow> string \<Rightarrow> string" where
  \<comment> \<open>\<open>s.partition(sep)[0]\<close>, also \<open>s.split(sep, 1)[0]\<close> and \<open>s[:s.find(sep)]\<close> when \<open>sep\<close> occurs\<close>
  "before_first sep s = takeWhile (\<lambda>c. c \<noteq> sep) s"

definition after_first :: "char \<Rightarrow> string \<Rightarrow> string" where
  \<comment> \<open>\<open>s.partition(sep)[2]\<close>: empty when \<open>sep\<close> does not occur\<close>
  "after_first sep s = drop 1 (dropWhile (\<lambda>c. c \<noteq> sep) s)"

definition after_last :: "char \<Rightarrow> string \<Rightarrow> string" where
  \<comment> \<open>\<open>s.rpartition(sep)[2]\<close>: the whole string when \<open>sep\<close> does not occur\<close>
  "after_last sep s = rev (takeWhile (\<lambda>c. c \<noteq> sep) (rev s))"

fun re_search_group :: "string \<Rightarrow> (char \<Rightarrow> bool) \<Rightarrow> string \<Rightarrow> string option" where
  \<comment> \<open>\<open>re.search(pre + "(" + cls + "+)", s)\<close> for a literal \<open>pre\<close> and a character class
      \<open>cls\<close>: group 1 of the leftmost match, the longest run of class characters.\<close>
  "re_search_group pre cls [] = None"
| "re_search_group pre cls (c # cs) =
     (if startswith pre (c # cs) \<and> takeWhile cls (drop (length pre) (c # cs)) \<noteq> []
      then Some (takeWhile cls (drop (length pre) (c # cs)))
      else re_search_group pre cls cs)"

definition not_slash_question :: "char \<Rightarrow> bool" where
  \<comment> \<open>the class \<open>[^/?]\<close>\<close>
  "not_slash_question c = (c \<noteq> CHR ''/'' \<and> c \<noteq> CHR ''?'')"

definition isdigit :: "char \<Rightarrow> bool" where
  \<comment> \<open>the class \<open>\d\<close>\<close>
  "isdigit c = (48 \<le> (of_char c :: nat) \<and> (of_char c :: nat) \<le> 57)"

section \<open>Errors and the environment of the program\<close>

datatype exn =
    ValueError string
  | IntegrityError
  | UniqueViolation
  | InFailedSqlTransaction

text \<open>
  What the program takes from outside the repository: the backend switch \<open>IS_PG\<close> (set from
  \<open>DATABASE_URL\<close>), two library functions whose results leave the 8-bit alphabet or depend on
  the interpreter (\<open>urllib.parse.unquote_plus\<close>, which decodes escapes as UTF-8, and
  \<open>urllib.parse._check_bracketed_host\<close>, which validates an IPv6 literal and returns the
  message of the \<open>ValueError\<close> it raises, if any), and the outcome of the two oEmbed requests.
  \<open>reddit_oembed_html\<close> and \<open>tiktok_oembed_html\<close> catch every exception and return \<open>None\<close>
  then, else the \<open>html\<close> field of the JSON answer (absent: \<open>None\<close>).
\<close>

record env =
  IS_PG :: bool
  unquote_plus :: "string \<Rightarrow> string"
  check_bracketed_host :: "string \<Rightarrow> string option"
  reddit_oembed_html :: "string \<Rightarrow> string option"
  tiktok_oembed_html :: "string \<Rightarrow> string option"

record session =
  user_id :: "int option"
  lang :: "string option"

definition unquote_plus_plain :: "string \<Rightarrow> string" where
  \<comment> \<open>\<open>unquote_plus\<close> on a string without \<open>%\<close>: only \<open>+\<close> is replaced\<close>
  "unquote_plus_plain s = map (\<lambda>c. if c = CHR ''+'' then CHR '' '' else c) s"

definition sqlite_offline :: env where
  \<comment> \<open>a deployment on SQLite whose oEmbed requests fail; used to evaluate the definitions on
      URLs without escapes and brackets\<close>
  "sqlite_offline =
     \<lparr>IS_PG = False, unquote_plus = unquote_plus_plain, check_bracketed_host = (\<lambda>_. None),
      reddit_oembed_html = (\<lambda>_. None), tiktok_oembed_html = (\<lambda>_. None)\<rparr>"

definition anonymous :: session where
  \<comment> \<open>a fresh session: nobody signed in, no language chosen\<close>
  "anonymous = \<lparr>user_id = None, lang = None\<rparr>"

section \<open>i18n\<close>

definition SUPPORTED_LANGS :: "string list" where
  "SUPPORTED_LANGS = [''sv'', ''en'']"

fun I18N :: "string \<Rightarrow> string \<Rightarrow> string option" where
  \<comment> \<open>the entries of the table that the modelled functions look up\<close>
  "I18N lng key =
     (if lng = ''sv'' then
        (if key = ''comment_empty'' then Some ''Kommentaren kan inte vara tom.''
         else if key = ''comment_posted'' then Some ''Kommentar postad.''
         else if key = ''anon'' then Some ''Anonym''
         else if key = ''empty_url'' then Some ''Tom URL''
         else if key = ''like_failed'' then Some ''Kunde inte gilla videon.''
         else if key = ''like_requires_login'' then
           Some (''Du m'' @ [CHR 0xE5] @ ''ste vara inloggad f'' @ [CHR 0xF6]
                 @ ''r att gilla (1 g'' @ [CHR 0xE5] @ ''ng).'')
         else None)
      else if lng = ''en'' then
        (if key = ''comment_empty'' then Some ''Comment cannot be empty.''
         else if key = ''comment_posted'' then Some ''Comment posted.''
         else if key = ''anon'' then Some ''Anonymous''
         else if key = ''empty_url'' then Some ''Empty URL''
         else if key = ''like_failed'' then Some ''Could not like the video.''
         else if key = ''like_requires_login'' then Some ''You must be signed in to like (once).''
         else None)
      else None)"

definition get_lang :: "session \<Rightarrow> string" where
  "get_lang sess =
     (let lng = lower (case lang sess of None \<Rightarrow> ''sv'' | Some l \<Rightarrow> if l = [] then ''sv'' else l)
      in if lng \<in> set SUPPORTED_LANGS then lng else ''sv'')"

definition t :: "session \<Rightarrow> string \<Rightarrow> string" where
  "t sess key =
     (case I18N (get_lang sess) key of
        Some txt \<Rightarrow> if txt \<noteq> [] then txt
                    else (case I18N ''sv'' key of Some txt' \<Rightarrow> if txt' \<noteq> [] then txt' else key
                          | None \<Rightarrow> key)
      | None \<Rightarrow> (case I18N ''sv'' key of Some txt' \<Rightarrow> if txt' \<noteq> [] then txt' else key
                  | None \<Rightarrow> key))"

section \<open>urllib.parse\<close>

text \<open>
  \<open>urlsplit\<close>, \<open>urlparse\<close>, the \<open>hostname\<close> property and \<open>parse_qs\<close> as CPython 3.11 defines
  them, for the default arguments the program uses. \<open>_checknetloc\<close> is left out: it rejects a
  netloc only when NFKC normalisation produces one of \<open>/?#@:\<close>, which no code point below
  256 does.
\<close>

record ParseResult =
  scheme :: string
  netloc :: string
  path :: string
  params :: string
  query :: string
  fragment :: string

definition scheme_chars :: string where
  "scheme_chars = ''abcdefghijklmnopqrstuvwxyzABCDEFGHIJKLMNOPQRSTUVWXYZ0123456789+-.''"

definition uses_params :: "string list" where
  "uses_params = ['''', ''ftp'', ''hdl'', ''prospero'', ''http'', ''imap'', ''https'', ''shttp'',
                  ''rtsp'', ''rtsps'', ''rtspu'', ''sip'', ''sips'', ''mms'', ''sftp'', ''tel'']"

definition isascii_alpha :: "char \<Rightarrow> bool" where
  \<comment> \<open>\<open>c.isascii() and c.isalpha()\<close>\<close>
  "isascii_alpha c =
     (let n = (of_char c :: nat) in (65 \<le> n \<and> n \<le> 90) \<or> (97 \<le> n \<and> n \<le> 122))"

definition split_scheme :: "string \<Rightarrow> string \<times> string" where
  "split_scheme url =
     (let head = before_first (CHR '':'') url
      in if CHR '':'' \<in> set url \<and> head \<noteq> [] \<and> isascii_alpha (hd head)
            \<and> list_all (\<lambda>c. c \<in> set scheme_chars) head
         then (lower head, drop (length head + 1) url)
         else ([], url))"

definition splitnetloc :: "string \<Rightarrow> string \<times> string" where
  \<comment> \<open>\<open>_splitnetloc(url, 2)\<close>, given \<open>url[2:]\<close>\<close>
  "splitnetloc rest =
     (let dom = takeWhile (\<lambda>c. c \<notin> set ''/?#'') rest
      in (dom, drop (length dom) rest))"

definition splitparams :: "string \<Rightarrow> string \<times> string" where
  \<comment> \<open>\<open>_splitparams\<close>: the first \<open>;\<close> at or after the last \<open>/\<close>\<close>
  "splitparams url =
     (if CHR ''/'' \<in> set url then
        (let tail = after_last (CHR ''/'') url;
             front = take (length url - length tail) url
         in if CHR '';'' \<in> set tail
            then (front @ before_first (CHR '';'') tail, after_first (CHR '';'') tail)
            else (url, []))
      else (before_first (CHR '';'') url, after_first (CHR '';'') url))"

definition urlsplit :: "env \<Rightarrow> string \<Rightarrow> exn + ParseResult" where
  "urlsplit env url0 =
     (let url1 = dropWhile (\<lambda>c. (of_char c :: nat) \<le> 32) url0;
          url2 = filter (\<lambda>c. c \<notin> {CHR 0x09, CHR 0x0D, CHR 0x0A}) url1;
          (sch, url3) = split_scheme url2;
          has_netloc = (take 2 url3 = ''//'');
          (nl, url4) = (if has_netloc then splitnetloc (drop 2 url3) else ([], url3));
          url5 = before_first (CHR ''#'') url4;
          frag = after_first (CHR ''#'') url4;
          url6 = before_first (CHR ''?'') url5;
          qry = after_first (CHR ''?'') url5
      in if has_netloc \<and> ((CHR ''['' \<in> set nl \<and> CHR '']'' \<notin> set nl)
                           \<or> (CHR '']'' \<in> set nl \<and> CHR ''['' \<notin> set nl))
         then Inl (ValueError ''Invalid IPv6 URL'')
         else
           (case (if has_netloc \<and> CHR ''['' \<in> set nl \<and> CHR '']'' \<in> set nl
                  then check_bracketed_host env
                         (before_first (CHR '']'') (after_first (CHR ''['') nl))
                  else None) of
              Some msg \<Rightarrow> Inl (ValueError msg)
            | None \<Rightarrow>
                Inr \<lparr>scheme = sch, netloc = nl, path = url6, params = [],
                     query = qry, fragment = frag\<rparr>))"

definition urlparse :: "env \<Rightarrow> string \<Rightarrow> exn + ParseResult" where
  "urlparse env url =
     (case urlsplit env url of
        Inl e \<Rightarrow> Inl e
      | Inr r \<Rightarrow>
          (if scheme r \<in> set uses_params \<and> CHR '';'' \<in> set (path r)
           then Inr (r\<lparr>path := fst (splitparams (path r)), params := snd (splitparams (path r))\<rparr>)
           else Inr r))"

definition hostname :: "ParseResult \<Rightarrow> string option" where
  "hostname r =
     (let hostinfo = after_last (CHR ''@'') (netloc r);
          host = (if CHR ''['' \<in> set hostinfo
                  then before_first (CHR '']'') (after_first (CHR ''['') hostinfo)
                  else before_first (CHR '':'') hostinfo)
      in if host = [] then None
         else Some (lower (before_first (CHR ''%'') host)
                    @ drop (length (before_first (CHR ''%'') host)) host))"

definition parse_qsl :: "env \<Rightarrow> string \<Rightarrow> (string \<times> string) list" where
  "parse_qsl env qs =
     (if qs = [] then []
      else concat (map (\<lambda>name_value.
             if name_value \<noteq> [] \<and> after_first (CHR ''='') name_value \<noteq> []
             then [(unquote_plus env (before_first (CHR ''='') name_value),
                    unquote_plus env (after_first (CHR ''='') name_value))]
             else [])
           (split_on (CHR ''&'') qs)))"

definition parse_qs :: "env \<Rightarrow> string \<Rightarrow> (string \<rightharpoonup> string list)" where
  "parse_qs env qs =
     (\<lambda>name. case map snd (filter (\<lambda>nv. fst nv = name) (parse_qsl env qs)) of
                [] \<Rightarrow> None
              | v # vs \<Rightarrow> Some (v # vs))"

section \<open>URL to embed conversion\<close>

definition youtube_com_vid :: "env \<Rightarrow> ParseResult \<Rightarrow> string option" where
  \<comment> \<open>the body of the \<open>youtube.com\<close> rule of \<open>normalize_embed\<close>: the value of \<open>vid\<close> when the
      rule returns, \<open>None\<close> when it falls through\<close>
  "youtube_com_vid env parsed =
     (let qs = parse_qs env (query parsed);
          vid = (case qs ''v'' of None \<Rightarrow> None | Some [] \<Rightarrow> None | Some (v # _) \<Rightarrow> Some v);
          vid' = (if vid = None \<or> vid = Some []
                  then re_search_group ''/shorts/'' not_slash_question (path parsed)
                  else vid)
      in if vid' = None \<or> vid' = Some [] then None else vid')"

definition youtu_be_vid :: "ParseResult \<Rightarrow> string option" where
  \<comment> \<open>the body of the \<open>youtu.be\<close> rule\<close>
  "youtu_be_vid parsed =
     (let vid = (case split_on (CHR ''/'') (strip_chars ''/'' (path parsed)) of
                   [] \<Rightarrow> [] | seg # _ \<Rightarrow> seg)
      in if vid \<noteq> [] then Some vid else None)"

definition normalize_embed :: "env \<Rightarrow> session \<Rightarrow> string \<Rightarrow> exn + (string \<times> string)" where
  "normalize_embed env sess source_url =
     (let url = strip source_url
      in if url = [] then Inl (ValueError (t sess ''empty_url''))
         else
           (case urlparse env url of
              Inl e \<Rightarrow> Inl e
            | Inr parsed \<Rightarrow>
                (let host = lower (case hostname parsed of None \<Rightarrow> [] | Some h \<Rightarrow> h)
                 in if contains ''reddit.com'' host \<or> contains ''redd.it'' host
                    then Inr (''reddit'', url)
                    else if contains ''tiktok.com'' host then Inr (''tiktok'', url)
                    else if contains ''youtube.com'' host \<and> youtube_com_vid env parsed \<noteq> None
                    then Inr (''youtube'',
                              ''https://www.youtube.com/embed/'' @ the (youtube_com_vid env parsed))
                    else if contains ''youtu.be'' host \<and> youtu_be_vid parsed \<noteq> None
                    then Inr (''youtube'',
                              ''https://www.youtube.com/embed/'' @ the (youtu_be_vid parsed))
                    else if contains ''vimeo.com'' host
                            \<and> re_search_group ''/'' isdigit (path parsed) \<noteq> None
                    then Inr (''vimeo'', ''https://player.vimeo.com/video/''
                                        @ the (re_search_group ''/'' isdigit (path parsed)))
                    else if contains ''loom.com'' host
                            \<and> re_search_group ''/share/'' not_slash_question (path parsed) \<noteq> None
                    then Inr (''loom'', ''https://www.loom.com/embed/''
                              @ the (re_search_group ''/share/'' not_slash_question (path parsed)))
                    else Inr (''custom'', url))))"

definition force_provider_embed ::
  "env \<Rightarrow> session \<Rightarrow> string \<Rightarrow> string \<Rightarrow> exn + (string \<times> string \<times> string)" where
  "force_provider_embed env sess provider_choice0 source_url =
     (let provider_choice = lower (strip provider_choice0);
          url = strip source_url
      in if provider_choice \<in> {'''', ''auto''} then
           (case normalize_embed env sess url of
              Inl e \<Rightarrow> Inl e
            | Inr (provider, embed_url) \<Rightarrow>
                (let embed_html = (if provider = ''reddit''
                                   then (case reddit_oembed_html env url of None \<Rightarrow> [] | Some h \<Rightarrow> h)
                                   else []);
                     provider1 = (if provider = ''reddit'' \<and> embed_html = []
                                  then ''custom'' else provider);
                     embed_html2 = (if provider1 = ''tiktok''
                                    then (case tiktok_oembed_html env url of None \<Rightarrow> [] | Some h \<Rightarrow> h)
                                    else embed_html);
                     provider2 = (if provider1 = ''tiktok'' \<and> embed_html2 = []
                                  then ''custom'' else provider1)
                 in Inr (provider2, embed_url, embed_html2)))
         else if provider_choice = ''reddit'' then
           (let html = (case reddit_oembed_html env url of None \<Rightarrow> [] | Some h \<Rightarrow> h)
            in if html \<noteq> [] then Inr (''reddit'', url, html) else Inr (''custom'', url, []))
         else if provider_choice = ''tiktok'' then
           (let html = (case tiktok_oembed_html env url of None \<Rightarrow> [] | Some h \<Rightarrow> h)
            in if html \<noteq> [] then Inr (''tiktok'', url, html) else Inr (''custom'', url, []))
         else if provider_choice = ''youtube'' then
           (case normalize_embed env sess url of
              Inl e \<Rightarrow> Inl e
            | Inr (p, e) \<Rightarrow> if p = ''youtube'' then Inr (''youtube'', e, [])
                            else Inr (''youtube'', url, []))
         else if provider_choice = ''vimeo'' then
           (case normalize_embed env sess url of
              Inl e \<Rightarrow> Inl e
            | Inr (p, e) \<Rightarrow> if p = ''vimeo'' then Inr (''vimeo'', e, [])
                            else Inr (''vimeo'', url, []))
         else if provider_choice = ''loom'' then
           (case normalize_embed env sess url of
              Inl e \<Rightarrow> Inl e
            | Inr (p, e) \<Rightarrow> if p = ''loom'' then Inr (''loom'', e, [])
                            else Inr (''loom'', url, []))
         else Inr (''custom'', url, []))"

section \<open>The relational store and the connection\<close>

text \<open>
  The tables of \<open>init_db\<close> as lists of rows in insertion order, with the columns that the
  modelled handlers read or write. Surrogate \<open>id\<close> columns of the link tables are left out.
  \<open>init_db\<close> itself (schema creation and the provisioning of the main admin, run before every
  request) is not modelled: the store is taken as initialised.
\<close>

record user_row =
  u_id :: int
  username :: string
  is_admin :: int

record video_row =
  v_id :: int
  views :: int
  likes :: int

record comment_row =
  c_video_id :: int
  c_user_id :: "int option"
  author :: string
  body :: string
  c_created_at :: string

record watch_history_row =
  wh_user_id :: int
  wh_video_id :: int
  last_watched_at :: string
  watch_count :: int

record playlist_row =
  pl_id :: int
  pl_name :: string

record playlist_item_row =
  pi_playlist_id :: int
  pi_video_id :: int
  position :: int

record video_like_row =
  vl_user_id :: int
  vl_video_id :: int
  vl_created_at :: string

record store =
  users :: "user_row list"
  videos :: "video_row list"
  comments :: "comment_row list"
  watch_history :: "watch_history_row list"
  playlists :: "playlist_row list"
  playlist_items :: "playlist_item_row list"
  video_likes :: "video_like_row list"

text \<open>
  A connection of \<open>sqlite3\<close> or \<open>psycopg\<close> in its default mode: statements act on a working
  copy inside an implicit transaction, \<open>commit\<close> publishes it, \<open>rollback\<close> and closing discard
  it. A statement that violates a constraint raises and changes nothing. On PostgreSQL it
  also leaves the transaction aborted: every later statement on the connection raises
  \<open>InFailedSqlTransaction\<close> until the transaction is ended. SQLite keeps the transaction
  usable.
\<close>

record connection =
  committed :: store
  working :: store
  tx_failed :: bool

type_synonym 'a db_action = "connection \<Rightarrow> (exn + 'a) \<times> connection"

definition db_return :: "'a \<Rightarrow> 'a db_action" where
  "db_return x db = (Inr x, db)"

definition db_bind :: "'a db_action \<Rightarrow> ('a \<Rightarrow> 'b db_action) \<Rightarrow> 'b db_action" where
  \<comment> \<open>sequencing: an exception skips the rest\<close>
  "db_bind m f db = (case m db of (Inl e, db') \<Rightarrow> (Inl e, db') | (Inr x, db') \<Rightarrow> f x db')"

definition db_try :: "'a db_action \<Rightarrow> (exn + 'a) db_action" where
  \<comment> \<open>\<open>try: ... except Exception as e:\<close>\<close>
  "db_try m db = (case m db of (r, db') \<Rightarrow> (Inr r, db'))"

definition get_db :: "store \<Rightarrow> connection" where
  \<comment> \<open>the connection a request opens\<close>
  "get_db st = \<lparr>committed = st, working = st, tx_failed = False\<rparr>"

definition close_db :: "connection \<Rightarrow> store" where
  \<comment> \<open>teardown: what was not committed is lost\<close>
  "close_db db = committed db"

definition execute_select :: "env \<Rightarrow> (store \<Rightarrow> 'a) \<Rightarrow> 'a db_action" where
  \<comment> \<open>\<open>db.execute\<close> of a \<open>SELECT\<close>\<close>
  "execute_select env qry db =
     (if IS_PG env \<and> tx_failed db then (Inl InFailedSqlTransaction, db)
      else (Inr (qry (working db)), db))"

definition execute_write :: "env \<Rightarrow> (store \<Rightarrow> store) \<Rightarrow> unit db_action" where
  \<comment> \<open>\<open>db.execute\<close> of an \<open>UPDATE\<close>, an upsert or an \<open>INSERT\<close> that violates no constraint\<close>
  "execute_write env upd db =
     (if IS_PG env \<and> tx_failed db then (Inl InFailedSqlTransaction, db)
      else (Inr (), db\<lparr>working := upd (working db)\<rparr>))"

definition insert_video_like :: "env \<Rightarrow> video_like_row \<Rightarrow> unit db_action" where
  \<comment> \<open>\<open>INSERT INTO video_likes\<close> under \<open>UNIQUE(user_id, video_id)\<close>\<close>
  "insert_video_like env row db =
     (if IS_PG env \<and> tx_failed db then (Inl InFailedSqlTransaction, db)
      else if list_ex (\<lambda>r. vl_user_id r = vl_user_id row \<and> vl_video_id r = vl_video_id row)
                (video_likes (working db))
      then (Inl (if IS_PG env then UniqueViolation else IntegrityError),
            db\<lparr>tx_failed := IS_PG env\<rparr>)
      else (Inr (), db\<lparr>working := (working db)\<lparr>video_likes :=
                                     video_likes (working db) @ [row]\<rparr>\<rparr>))"

definition commit :: "env \<Rightarrow> unit db_action" where
  \<comment> \<open>\<open>db.commit()\<close>; PostgreSQL ends an aborted transaction by rolling it back\<close>
  "commit env db =
     (if IS_PG env \<and> tx_failed db
      then (Inr (), db\<lparr>working := committed db, tx_failed := False\<rparr>)
      else (Inr (), db\<lparr>committed := working db\<rparr>))"

definition rollback :: "unit db_action" where
  \<comment> \<open>\<open>db.rollback()\<close>\<close>
  "rollback db = (Inr (), db\<lparr>working := committed db, tx_failed := False\<rparr>)"

definition is_unique_violation :: "env \<Rightarrow> exn \<Rightarrow> bool" where
  "is_unique_violation env exc =
     (if IS_PG env \<and> exc = UniqueViolation then True
      else if exc = IntegrityError then True
      else False)"

section \<open>Requests and responses\<close>

record request =
  req_session :: session
  header_x_requested_with :: "string option"
  header_accept :: "string option"
  arg_ajax :: "string option"
  arg_noview :: "string option"
  form_author :: "string option"
  form_body :: "string option"

datatype json = JBool bool | JInt int | JStr string

record watch_page =
  wp_video :: "video_row option"
  wp_liked :: bool
  wp_playlist :: "(int \<times> string) option"
  wp_next_in_playlist_id :: "int option"

text \<open>
  What a handler returns. \<open>Redirect_watch v msgs\<close> is
  \<open>redirect(url_for("watch", video_id=v, noview=1))\<close> after the messages \<open>msgs\<close> were flashed,
  each with its category. \<open>Render_watch\<close> carries the template arguments that are modelled
  (comments, playlist items and recommendations are not). An exception that leaves the
  handler is the server error Flask answers with.
\<close>

datatype response =
    Abort nat
  | Jsonify "(string \<times> json) list" nat
  | Redirect_watch int "(string \<times> string) list"
  | Render_watch watch_page
  | Internal_Server_Error exn

definition run_request :: "response db_action \<Rightarrow> store \<Rightarrow> response \<times> store" where
  \<comment> \<open>one request: \<open>get_db\<close>, the handler, the teardown \<open>close_db\<close>\<close>
  "run_request handler st =
     (case handler (get_db st) of
        (Inl e, db) \<Rightarrow> (Internal_Server_Error e, close_db db)
      | (Inr resp, db) \<Rightarrow> (resp, close_db db))"

definition or_empty :: "string option \<Rightarrow> string" where
  \<comment> \<open>\<open>x or ""\<close>\<close>
  "or_empty x = (case x of None \<Rightarrow> [] | Some s \<Rightarrow> s)"

definition wants_json :: "request \<Rightarrow> bool" where
  "wants_json req =
     (header_x_requested_with req = Some ''XMLHttpRequest''
      \<or> contains ''application/json'' (or_empty (header_accept req))
      \<or> arg_ajax req = Some ''1'')"

definition select_video :: "int \<Rightarrow> store \<Rightarrow> video_row option" where
  \<comment> \<open>\<open>SELECT ... FROM videos WHERE id=?\<close>, \<open>fetchone()\<close>\<close>
  "select_video video_id st = find (\<lambda>v. v_id v = video_id) (videos st)"

definition current_user :: "env \<Rightarrow> session \<Rightarrow> user_row option db_action" where
  "current_user env s =
     (case user_id s of
        None \<Rightarrow> db_return None
      | Some uid \<Rightarrow>
          if uid = 0 then db_return None
          else execute_select env (\<lambda>st. find (\<lambda>u. u_id u = uid) (users st)))"

section \<open>Playlist helpers\<close>

definition get_video_playlist :: "env \<Rightarrow> int \<Rightarrow> (int \<times> string) option db_action" where
  "get_video_playlist env video_id =
     execute_select env (\<lambda>st.
       case [(pl_id p, pl_name p). i \<leftarrow> playlist_items st, pi_video_id i = video_id,
                                   p \<leftarrow> playlists st, pl_id p = pi_playlist_id i] of
         [] \<Rightarrow> None
       | row # _ \<Rightarrow> Some row)"

text \<open>
  \<open>ORDER BY position ASC LIMIT 1\<close> is the head of a stable sort: among rows of equal
  position SQL leaves the choice open, the model takes the oldest.
\<close>

definition get_next_in_playlist_id :: "env \<Rightarrow> int \<Rightarrow> int \<Rightarrow> int option db_action" where
  "get_next_in_playlist_id env playlist_id current_video_id =
     db_bind (execute_select env (\<lambda>st.
                find (\<lambda>r. pi_playlist_id r = playlist_id \<and> pi_video_id r = current_video_id)
                     (playlist_items st)))
       (\<lambda>cur. case cur of
          None \<Rightarrow> db_return None
        | Some row \<Rightarrow>
            (let current_pos = position row
             in db_bind (execute_select env (\<lambda>st.
                           case sort_key position
                                  (filter (\<lambda>r. pi_playlist_id r = playlist_id
                                                \<and> position r > current_pos)
                                          (playlist_items st)) of
                             [] \<Rightarrow> None
                           | nxt # _ \<Rightarrow> Some nxt))
                  (\<lambda>nxt. db_return (case nxt of None \<Rightarrow> None
                                     | Some r \<Rightarrow> Some (pi_video_id r)))))"

section \<open>Routes\<close>

definition upsert_watch_history :: "int \<Rightarrow> int \<Rightarrow> string \<Rightarrow> store \<Rightarrow> store" where
  \<comment> \<open>\<open>INSERT INTO watch_history ... VALUES (?, ?, ?, 1) ON CONFLICT(user_id, video_id)
      DO UPDATE SET last_watched_at = excluded.last_watched_at, watch_count = watch_count + 1\<close>\<close>
  "upsert_watch_history uid video_id now st =
     (if list_ex (\<lambda>r. wh_user_id r = uid \<and> wh_video_id r = video_id) (watch_history st)
      then st\<lparr>watch_history :=
                map (\<lambda>r. if wh_user_id r = uid \<and> wh_video_id r = video_id
                          then r\<lparr>last_watched_at := now, watch_count := watch_count r + 1\<rparr>
                          else r)
                    (watch_history st)\<rparr>
      else st\<lparr>watch_history := watch_history st
                @ [\<lparr>wh_user_id = uid, wh_video_id = video_id,
                     last_watched_at = now, watch_count = 1\<rparr>]\<rparr>)"

definition increment_views :: "int \<Rightarrow> store \<Rightarrow> store" where
  \<comment> \<open>\<open>UPDATE videos SET views = views + 1 WHERE id=?\<close>\<close>
  "increment_views video_id st =
     st\<lparr>videos := map (\<lambda>v. if v_id v = video_id then v\<lparr>views := views v + 1\<rparr> else v)
                       (videos st)\<rparr>"

definition increment_likes :: "int \<Rightarrow> store \<Rightarrow> store" where
  \<comment> \<open>\<open>UPDATE videos SET likes = likes + 1 WHERE id=?\<close>\<close>
  "increment_likes video_id st =
     st\<lparr>videos := map (\<lambda>v. if v_id v = video_id then v\<lparr>likes := likes v + 1\<rparr> else v)
                       (videos st)\<rparr>"

definition watch :: "env \<Rightarrow> request \<Rightarrow> int \<Rightarrow> string \<Rightarrow> response db_action" where
  \<comment> \<open>\<open>now\<close> is \<open>datetime.utcnow().isoformat()\<close>\<close>
  "watch env req video_id now =
     db_bind (execute_select env (select_video video_id)) (\<lambda>video.
     case video of
       None \<Rightarrow> db_return (Abort 404)
     | Some _ \<Rightarrow>
     db_bind (if or_empty (arg_noview req) \<noteq> ''1''
              then db_bind (execute_write env (increment_views video_id)) (\<lambda>_. commit env)
              else db_return ()) (\<lambda>_.
     db_bind (current_user env (req_session req)) (\<lambda>user.
     db_bind (case user of
                None \<Rightarrow> db_return ()
              | Some u \<Rightarrow> db_bind (execute_write env (upsert_watch_history (u_id u) video_id now))
                            (\<lambda>_. commit env)) (\<lambda>_.
     db_bind (execute_select env (select_video video_id)) (\<lambda>video'.
     db_bind (case user of
                None \<Rightarrow> db_return False
              | Some u \<Rightarrow> execute_select env (\<lambda>st.
                            list_ex (\<lambda>r. vl_user_id r = u_id u \<and> vl_video_id r = video_id)
                                    (video_likes st))) (\<lambda>liked.
     db_bind (get_video_playlist env video_id) (\<lambda>playlist.
     db_bind (case playlist of
                None \<Rightarrow> db_return None
              | Some (pid, _) \<Rightarrow> get_next_in_playlist_id env pid video_id) (\<lambda>next_in_playlist_id.
     db_return (Render_watch \<lparr>wp_video = video', wp_liked = liked, wp_playlist = playlist,
                              wp_next_in_playlist_id = next_in_playlist_id\<rparr>)))))))))"

definition like_respond :: "env \<Rightarrow> request \<Rightarrow> int \<Rightarrow> bool \<Rightarrow> response db_action" where
  \<comment> \<open>the part of \<open>like\<close> after the \<open>try\<close> statement\<close>
  "like_respond env req video_id liked_now =
     db_bind (execute_select env (select_video video_id)) (\<lambda>likes_row.
     db_return
       (if wants_json req
        then Jsonify [(''ok'', JBool True), (''video_id'', JInt video_id),
                      (''likes'', JInt (case likes_row of None \<Rightarrow> 0 | Some v \<Rightarrow> likes v)),
                      (''liked'', JBool liked_now)] 200
        else Redirect_watch video_id []))"

definition like :: "env \<Rightarrow> request \<Rightarrow> int \<Rightarrow> string \<Rightarrow> response db_action" where
  "like env req video_id now =
     db_bind (execute_select env (select_video video_id)) (\<lambda>v.
     case v of
       None \<Rightarrow> db_return (Abort 404)
     | Some _ \<Rightarrow>
     db_bind (current_user env (req_session req)) (\<lambda>user.
     case user of
       None \<Rightarrow>
         db_return
           (if wants_json req
            then Jsonify [(''ok'', JBool False), (''error'', JStr ''login_required'')] 401
            else Redirect_watch video_id [(t (req_session req) ''like_requires_login'', ''error'')])
     | Some u \<Rightarrow>
     db_bind (db_try
                (db_bind (insert_video_like env
                            \<lparr>vl_user_id = u_id u, vl_video_id = video_id, vl_created_at = now\<rparr>) (\<lambda>_.
                 db_bind (execute_write env (increment_likes video_id)) (\<lambda>_.
                 commit env)))) (\<lambda>outcome.
     case outcome of
       Inr _ \<Rightarrow> like_respond env req video_id True
     | Inl e \<Rightarrow>
         if is_unique_violation env e then like_respond env req video_id True
         else db_bind (if IS_PG env then rollback else db_return ()) (\<lambda>_.
              db_return (Redirect_watch video_id [(t (req_session req) ''like_failed'', ''error'')])))))"

definition comment :: "env \<Rightarrow> request \<Rightarrow> int \<Rightarrow> string \<Rightarrow> response db_action" where
  "comment env req video_id now =
     db_bind (execute_select env (select_video video_id)) (\<lambda>v.
     case v of
       None \<Rightarrow> db_return (Abort 404)
     | Some _ \<Rightarrow>
     db_bind (current_user env (req_session req)) (\<lambda>user.
     let author0 = strip (or_empty (form_author req));
         body0 = strip (or_empty (form_body req))
     in if body0 = []
        then db_return (Redirect_watch video_id [(t (req_session req) ''comment_empty'', ''error'')])
        else
          (let author1 = (case user of None \<Rightarrow> author0
                          | Some u \<Rightarrow> if author0 = [] then username u else author0);
               author2 = (if author1 = [] then t (req_session req) ''anon'' else author1)
           in db_bind (execute_write env (\<lambda>st. st\<lparr>comments := comments st
                         @ [\<lparr>c_video_id = video_id,
                              c_user_id = (case user of None \<Rightarrow> None | Some u \<Rightarrow> Some (u_id u)),
                              author = take 50 author2, body = take 1000 body0,
                              c_created_at = now\<rparr>]\<rparr>)) (\<lambda>_.
              db_bind (commit env) (\<lambda>_.
              db_return (Redirect_watch video_id
                           [(t (req_session req) ''comment_posted'', ''ok'')]))))))"

section \<open>Example data and the invariant of the like counter\<close>

definition postgres_offline :: env where
  \<comment> \<open>the same deployment with \<open>DATABASE_URL\<close> set\<close>
  "postgres_offline = sqlite_offline\<lparr>IS_PG := True\<rparr>"

definition example_store :: store where
  \<comment> \<open>one user, one video, nothing else\<close>
  "example_store =
     \<lparr>users = [\<lparr>u_id = 1, username = ''alice'', is_admin = 0\<rparr>],
      videos = [\<lparr>v_id = 1, views = 0, likes = 0\<rparr>],
      comments = [], watch_history = [], playlists = [], playlist_items = [],
      video_likes = []\<rparr>"

definition ajax_request :: "session \<Rightarrow> request" where
  \<comment> \<open>a request of the page's script: \<open>X-Requested-With: XMLHttpRequest\<close>, no arguments\<close>
  "ajax_request s =
     \<lparr>req_session = s, header_x_requested_with = Some ''XMLHttpRequest'', header_accept = None,
      arg_ajax = None, arg_noview = None, form_author = None, form_body = None\<rparr>"

definition alice :: session where
  \<comment> \<open>user 1 signed in, English chosen\<close>
  "alice = \<lparr>user_id = Some 1, lang = Some ''en''\<rparr>"

definition page_request :: "session \<Rightarrow> request" where
  \<comment> \<open>a plain browser request: no script header, no arguments, no form\<close>
  "page_request s =
     \<lparr>req_session = s, header_x_requested_with = None, header_accept = Some ''text/html'',
      arg_ajax = None, arg_noview = None, form_author = None, form_body = None\<rparr>"

definition comment_form :: "session \<Rightarrow> string \<Rightarrow> string \<Rightarrow> request" where
  \<comment> \<open>the comment form posted with an author field and a body field\<close>
  "comment_form s a b = (page_request s)\<lparr>form_author := Some a, form_body := Some b\<rparr>"

definition playlist_store :: store where
  \<comment> \<open>\<open>example_store\<close> with playlist 1 holding videos 10, 11, 12 at positions 1, 5, 3 and
      playlist 2 holding video 13 at position 9\<close>
  "playlist_store =
     example_store\<lparr>playlists := [\<lparr>pl_id = 1, pl_name = ''first''\<rparr>, \<lparr>pl_id = 2, pl_name = ''second''\<rparr>],
       playlist_items :=
         [\<lparr>pi_playlist_id = 1, pi_video_id = 10, position = 1\<rparr>,
          \<lparr>pi_playlist_id = 1, pi_video_id = 11, position = 5\<rparr>,
          \<lparr>pi_playlist_id = 2, pi_video_id = 13, position = 9\<rparr>,
          \<lparr>pi_playlist_id = 1, pi_video_id = 12, position = 3\<rparr>]\<rparr>"

definition likes_consistent :: "store \<Rightarrow> bool" where
  \<comment> \<open>every video's \<open>likes\<close> column counts the \<open>video_likes\<close> rows of that video\<close>
  "likes_consistent st =
     list_all (\<lambda>v. likes v = int (length (filter (\<lambda>r. vl_video_id r = v_id v) (video_likes st))))
              (videos st)"

section \<open>Facts about the string functions\<close>

lemma rstrip_keeps_head:
  assumes "a = [] \<or> \<not> P (hd a)"
  shows "dropWhile P (rev (dropWhile P (rev a))) = rev (dropWhile P (rev a))"
proof (cases "rev (dropWhile P (rev a)) = []")
  case True
  then show ?thesis by (metis dropWhile.simps(1))
next
  case False
  have "rev a = takeWhile P (rev a) @ dropWhile P (rev a)" by simp
  then have "a = rev (dropWhile P (rev a)) @ rev (takeWhile P (rev a))"
    by (metis rev_append rev_rev_ident)
  with False have "hd (rev (dropWhile P (rev a))) = hd a"
    by (metis hd_append2)
  moreover from False have "a \<noteq> []" by auto
  ultimately have "\<not> P (hd (rev (dropWhile P (rev a))))" using assms by simp
  with False show ?thesis by (cases "rev (dropWhile P (rev a))") auto
qed

lemma dropWhile_strip: "dropWhile isspace (strip s) = strip s"
  unfolding strip_def
  by (rule rstrip_keeps_head) (metis hd_dropWhile)

lemma strip_strip: "strip (strip s) = strip s"
proof -
  have "rev (strip s) = dropWhile isspace (rev (dropWhile isspace s))"
    by (simp add: strip_def)
  then have "dropWhile isspace (rev (strip s)) = rev (strip s)"
    by simp
  then have "rev (dropWhile isspace (rev (strip s))) = strip s" by simp
  then show ?thesis
    using dropWhile_strip [of s] by (simp add: strip_def [of "strip s"])
qed

lemma strip_Nil: "strip [] = []"
  by (simp add: strip_def)

lemma normalize_embed_strip: "normalize_embed env s (strip url) = normalize_embed env s url"
  by (simp add: normalize_embed_def strip_strip)

lemma re_search_group_nonempty: "re_search_group pre cls s = Some g \<Longrightarrow> g \<noteq> []"
  by (induction s) (auto split: if_splits)

section \<open>Provider resolver\<close>

text \<open>
  Claim C1, as the code has it. Let the trimmed URL parse, and let the lower-cased host
  contain none of \<open>reddit.com\<close>, \<open>redd.it\<close>, \<open>tiktok.com\<close> (those rules come first). Let
  \<open>v\<close> be the first value that \<open>parse_qs\<close> keeps for the parameter \<open>v\<close> of the query, and
  empty when it keeps none: \<open>parse_qs\<close> drops a parameter whose value is blank, so \<open>?v=\<close>
  counts as no parameter. If the host contains \<open>youtube.com\<close> and \<open>v\<close> is not empty, the
  result is provider \<open>youtube\<close> with \<open>https://www.youtube.com/embed/\<close> followed by \<open>v\<close>; if
  \<open>v\<close> is empty and the path matches \<open>/shorts/<id>\<close>, it is the same with that id. If the
  host contains \<open>youtu.be\<close>, the \<open>youtube.com\<close> rule did not apply, and the first path segment
  is not empty, it is the same with that segment.
\<close>

theorem normalize_embed_youtube:
  assumes "strip source_url \<noteq> []"
    and "urlparse env (strip source_url) = Inr parsed"
    and "host = lower (case hostname parsed of None \<Rightarrow> [] | Some h \<Rightarrow> h)"
    and "\<not> contains ''reddit.com'' host" and "\<not> contains ''redd.it'' host"
    and "\<not> contains ''tiktok.com'' host"
    and "v = (case parse_qs env (query parsed) ''v'' of Some (x # _) \<Rightarrow> x | _ \<Rightarrow> [])"
    and "shorts = re_search_group ''/shorts/'' not_slash_question (path parsed)"
  shows "(contains ''youtube.com'' host \<and> v \<noteq> [] \<longrightarrow>
            normalize_embed env s source_url
              = Inr (''youtube'', ''https://www.youtube.com/embed/'' @ v))
       \<and> (contains ''youtube.com'' host \<and> v = [] \<and> shorts = Some sid \<longrightarrow>
            normalize_embed env s source_url
              = Inr (''youtube'', ''https://www.youtube.com/embed/'' @ sid))
       \<and> (contains ''youtu.be'' host
            \<and> \<not> (contains ''youtube.com'' host \<and> (v \<noteq> [] \<or> shorts \<noteq> None))
            \<and> split_on (CHR ''/'') (strip_chars ''/'' (path parsed)) = seg # segs \<and> seg \<noteq> [] \<longrightarrow>
            normalize_embed env s source_url
              = Inr (''youtube'', ''https://www.youtube.com/embed/'' @ seg))"
proof -
  have yt: "youtube_com_vid env parsed = (if v \<noteq> [] then Some v else shorts)"
    using assms(7,8) re_search_group_nonempty [of "''/shorts/''" not_slash_question "path parsed"]
    by (auto simp: youtube_com_vid_def Let_def split: option.splits list.splits)
  show ?thesis
    using assms(1-6) yt
    by (auto simp: normalize_embed_def Let_def youtu_be_vid_def)
qed

theorem normalize_embed_youtube_witness:
  "normalize_embed sqlite_offline anonymous ''https://www.youtube.com/watch?v=abc123''
     = Inr (''youtube'', ''https://www.youtube.com/embed/abc123'')
   \<and> normalize_embed sqlite_offline anonymous ''https://m.youtube.com/shorts/xyz?feature=share''
     = Inr (''youtube'', ''https://www.youtube.com/embed/xyz'')
   \<and> normalize_embed sqlite_offline anonymous ''https://youtu.be/abc''
     = Inr (''youtube'', ''https://www.youtube.com/embed/abc'')"
proof -
  let ?U1 = "''https://www.youtube.com/watch?v=abc123''"
  let ?P1 = "\<lparr>scheme = ''https'', netloc = ''www.youtube.com'', path = ''/watch'',
              params = [], query = ''v=abc123'', fragment = []\<rparr>"
  let ?U2 = "''https://m.youtube.com/shorts/xyz?feature=share''"
  let ?P2 = "\<lparr>scheme = ''https'', netloc = ''m.youtube.com'', path = ''/shorts/xyz'',
              params = [], query = ''feature=share'', fragment = []\<rparr>"
  let ?U3 = "''https://youtu.be/abc''"
  let ?P3 = "\<lparr>scheme = ''https'', netloc = ''youtu.be'', path = ''/abc'',
              params = [], query = [], fragment = []\<rparr>"
  let ?host = "\<lambda>P. lower (case hostname P of None \<Rightarrow> [] | Some h \<Rightarrow> h)"
  have a1: "strip ?U1 \<noteq> []" and a2: "urlparse sqlite_offline (strip ?U1) = Inr ?P1"
    and a3: "\<not> contains ''reddit.com'' (?host ?P1)" and a4: "\<not> contains ''redd.it'' (?host ?P1)"
    and a5: "\<not> contains ''tiktok.com'' (?host ?P1)"
    and a6: "contains ''youtube.com'' (?host ?P1)"
    and a7: "(case parse_qs sqlite_offline (query ?P1) ''v'' of Some (x # _) \<Rightarrow> x | _ \<Rightarrow> [])
               = ''abc123''"
    by code_simp+
  have b1: "strip ?U2 \<noteq> []" and b2: "urlparse sqlite_offline (strip ?U2) = Inr ?P2"
    and b3: "\<not> contains ''reddit.com'' (?host ?P2)" and b4: "\<not> contains ''redd.it'' (?host ?P2)"
    and b5: "\<not> contains ''tiktok.com'' (?host ?P2)"
    and b6: "contains ''youtube.com'' (?host ?P2)"
    and b7: "(case parse_qs sqlite_offline (query ?P2) ''v'' of Some (x # _) \<Rightarrow> x | _ \<Rightarrow> []) = []"
    and b8: "re_search_group ''/shorts/'' not_slash_question (path ?P2) = Some ''xyz''"
    by code_simp+
  have c1: "strip ?U3 \<noteq> []" and c2: "urlparse sqlite_offline (strip ?U3) = Inr ?P3"
    and c3: "\<not> contains ''reddit.com'' (?host ?P3)" and c4: "\<not> contains ''redd.it'' (?host ?P3)"
    and c5: "\<not> contains ''tiktok.com'' (?host ?P3)"
    and c6: "contains ''youtu.be'' (?host ?P3)"
    and c7: "\<not> contains ''youtube.com'' (?host ?P3)"
    and c8: "split_on (CHR ''/'') (strip_chars ''/'' (path ?P3)) = [''abc'']"
    by code_simp+
  have "normalize_embed sqlite_offline anonymous ?U1
          = Inr (''youtube'', ''https://www.youtube.com/embed/'' @ ''abc123'')"
    using normalize_embed_youtube [OF a1 a2 refl a3 a4 a5 refl refl, of anonymous] a6 a7
    by simp
  moreover have "normalize_embed sqlite_offline anonymous ?U2
          = Inr (''youtube'', ''https://www.youtube.com/embed/'' @ ''xyz'')"
    using normalize_embed_youtube [OF b1 b2 refl b3 b4 b5 refl refl, of anonymous "''xyz''"] b6 b7 b8
    by simp
  moreover have "normalize_embed sqlite_offline anonymous ?U3
          = Inr (''youtube'', ''https://www.youtube.com/embed/'' @ ''abc'')"
    using normalize_embed_youtube [OF c1 c2 refl c3 c4 c5 refl refl, of anonymous _ "''abc''" "[]"]
      c6 c7 c8
    by simp
  ultimately show ?thesis by simp
qed

text \<open>
  The claim as it is written fails where the host contains \<open>youtube.com\<close> and also
  \<open>reddit.com\<close>: the URL below has such a host and a parameter \<open>v\<close>, and resolves to \<open>reddit\<close>.
\<close>

theorem normalize_embed_youtube_counterexample:
  "urlparse sqlite_offline ''https://youtube.com.reddit.com/watch?v=abc''
     = Inr \<lparr>scheme = ''https'', netloc = ''youtube.com.reddit.com'', path = ''/watch'',
            params = [], query = ''v=abc'', fragment = []\<rparr>
   \<and> hostname \<lparr>scheme = ''https'', netloc = ''youtube.com.reddit.com'', path = ''/watch'',
            params = [], query = ''v=abc'', fragment = []\<rparr> = Some ''youtube.com.reddit.com''
   \<and> contains ''youtube.com'' ''youtube.com.reddit.com''
   \<and> parse_qs sqlite_offline ''v=abc'' ''v'' = Some [''abc'']
   \<and> normalize_embed sqlite_offline anonymous ''https://youtube.com.reddit.com/watch?v=abc''
       = Inr (''reddit'', ''https://youtube.com.reddit.com/watch?v=abc'')
   \<and> normalize_embed sqlite_offline anonymous ''https://youtube.com.reddit.com/watch?v=abc''
       \<noteq> Inr (''youtube'', ''https://www.youtube.com/embed/abc'')"
  by code_simp

text \<open>
  A parameter \<open>v\<close> with a blank value is no parameter for \<open>parse_qs\<close>: with no
  \<open>/shorts/\<close> path either, a \<open>youtube.com\<close> URL ending in \<open>?v=\<close> falls through to \<open>custom\<close>.
\<close>

lemma normalize_embed_blank_v:
  "parse_qs sqlite_offline ''v='' ''v'' = None
   \<and> normalize_embed sqlite_offline anonymous ''https://www.youtube.com/watch?v=''
       = Inr (''custom'', ''https://www.youtube.com/watch?v='')"
  by code_simp

section \<open>Embed decision\<close>

text \<open>
  Claim C2, as the code has it. For a source URL that is not blank and that \<open>urlparse\<close>
  accepts, and an explicit choice of \<open>youtube\<close>, \<open>vimeo\<close> or \<open>loom\<close> (trimmed and lower-cased),
  \<open>force_provider_embed\<close> returns the chosen provider, the resolver's embed URL when the
  resolver detects that provider and the trimmed source URL otherwise, and empty markup.
\<close>

theorem force_provider_embed_explicit:
  assumes "strip source_url \<noteq> []"
    and "urlparse env (strip source_url) = Inr parsed"
    and "lower (strip provider_choice) = c"
    and "c \<in> {''youtube'', ''vimeo'', ''loom''}"
  shows "\<exists>p e. normalize_embed env s source_url = Inr (p, e)
           \<and> force_provider_embed env s provider_choice source_url
               = Inr (c, if p = c then e else strip source_url, [])"
proof -
  have "\<exists>pe. normalize_embed env s source_url = Inr pe"
    using assms(1,2) by (simp add: normalize_embed_def Let_def)
  then obtain p e where pe: "normalize_embed env s source_url = Inr (p, e)"
    by auto
  then have "normalize_embed env s (strip source_url) = Inr (p, e)"
    by (simp add: normalize_embed_strip)
  then have "force_provider_embed env s provider_choice source_url
               = Inr (c, if p = c then e else strip source_url, [])"
    using assms(3,4) by (auto simp: force_provider_embed_def Let_def)
  with pe show ?thesis by blast
qed

theorem force_provider_embed_explicit_witness:
  "strip ''https://youtu.be/abc'' \<noteq> []
   \<and> urlparse sqlite_offline (strip ''https://youtu.be/abc'')
       = Inr \<lparr>scheme = ''https'', netloc = ''youtu.be'', path = ''/abc'', params = [],
              query = [], fragment = []\<rparr>
   \<and> lower (strip ''YouTube'') = ''youtube''
   \<and> force_provider_embed sqlite_offline anonymous ''YouTube'' ''https://youtu.be/abc''
       = Inr (''youtube'', ''https://www.youtube.com/embed/abc'', [])
   \<and> lower (strip ''vimeo'') = ''vimeo''
   \<and> force_provider_embed sqlite_offline anonymous ''vimeo'' ''https://youtu.be/abc''
       = Inr (''vimeo'', ''https://youtu.be/abc'', [])"
proof -
  have h1: "strip ''https://youtu.be/abc'' \<noteq> []" by code_simp
  have h2: "urlparse sqlite_offline (strip ''https://youtu.be/abc'')
       = Inr \<lparr>scheme = ''https'', netloc = ''youtu.be'', path = ''/abc'', params = [],
              query = [], fragment = []\<rparr>" by code_simp
  have c1: "lower (strip ''YouTube'') = ''youtube''" by code_simp
  have c2: "lower (strip ''vimeo'') = ''vimeo''" by code_simp
  have n: "normalize_embed sqlite_offline anonymous ''https://youtu.be/abc''
             = Inr (''youtube'', ''https://www.youtube.com/embed/abc'')" by code_simp
  have u: "strip ''https://youtu.be/abc'' = ''https://youtu.be/abc''" by code_simp
  show ?thesis
    using h1 h2 c1 c2
      force_provider_embed_explicit [OF h1 h2 c1, of anonymous]
      force_provider_embed_explicit [OF h1 h2 c2, of anonymous]
    by (simp add: n u)
qed

text \<open>
  The claim as it is written, for every source URL that is not empty, fails where
  \<open>urlparse\<close> raises: an opening bracket without its closing one in the host is an
  \<open>Invalid IPv6 URL\<close>, and the \<open>ValueError\<close> leaves \<open>force_provider_embed\<close>.
\<close>

theorem force_provider_embed_explicit_counterexample:
  "strip ''http://['' \<noteq> []
   \<and> force_provider_embed sqlite_offline anonymous ''youtube'' ''http://[''
       = Inl (ValueError ''Invalid IPv6 URL'')"
  by code_simp

text \<open>
  Claim C3. When the explicit choice is \<open>reddit\<close> or \<open>tiktok\<close> and the oEmbed request of that
  provider yields no markup (\<open>None\<close>, as after any caught exception or a missing \<open>html\<close>
  field, or an empty string), \<open>force_provider_embed\<close> returns \<open>custom\<close>, the source URL
  (trimmed, as \<open>url = source_url.strip()\<close> has it) and empty markup; it returns a value
  and raises nothing. This holds for every source URL, empty or not.
\<close>

theorem force_provider_embed_oembed_failure:
  assumes "(lower (strip provider_choice) = ''reddit''
              \<and> reddit_oembed_html env (strip source_url) \<in> {None, Some []})
         \<or> (lower (strip provider_choice) = ''tiktok''
              \<and> tiktok_oembed_html env (strip source_url) \<in> {None, Some []})"
  shows "force_provider_embed env s provider_choice source_url
           = Inr (''custom'', strip source_url, [])"
  using assms by (auto simp: force_provider_embed_def Let_def)

theorem force_provider_embed_oembed_failure_witness:
  "(lower (strip ''reddit'') = ''reddit''
      \<and> reddit_oembed_html sqlite_offline (strip ''https://reddit.com/r/x/comments/1/'')
            \<in> {None, Some []})
   \<and> force_provider_embed sqlite_offline anonymous ''reddit'' ''https://reddit.com/r/x/comments/1/''
       = Inr (''custom'', ''https://reddit.com/r/x/comments/1/'', [])"
proof -
  have h: "lower (strip ''reddit'') = ''reddit''
      \<and> reddit_oembed_html sqlite_offline (strip ''https://reddit.com/r/x/comments/1/'')
            \<in> {None, Some []}"
    by code_simp
  have u: "strip ''https://reddit.com/r/x/comments/1/'' = ''https://reddit.com/r/x/comments/1/''"
    by code_simp
  show ?thesis
    using h u force_provider_embed_oembed_failure [OF disjI1 [OF h], of anonymous] by simp
qed

text \<open>
  Claim C10. When the source URL is empty or blank, the choices \<open>youtube\<close>, \<open>vimeo\<close>, \<open>loom\<close>,
  \<open>auto\<close> and the empty choice raise the empty-URL \<open>ValueError\<close>, and the choice \<open>custom\<close>
  returns \<open>custom\<close> with an empty URL and empty markup. The result holds for every
  environment: it depends on no parse and on no oEmbed answer.
\<close>

theorem force_provider_embed_empty_url:
  assumes "strip source_url = []"
  shows "(lower (strip provider_choice) \<in> {[], ''auto'', ''youtube'', ''vimeo'', ''loom''} \<longrightarrow>
            force_provider_embed env s provider_choice source_url
              = Inl (ValueError (t s ''empty_url'')))
       \<and> (lower (strip provider_choice) = ''custom'' \<longrightarrow>
            force_provider_embed env s provider_choice source_url = Inr (''custom'', [], []))"
  using assms by (simp add: force_provider_embed_def normalize_embed_def Let_def strip_Nil)

theorem force_provider_embed_empty_url_witness:
  "strip ''   '' = []
   \<and> force_provider_embed sqlite_offline anonymous ''youtube'' ''   ''
       = Inl (ValueError (t anonymous ''empty_url''))
   \<and> force_provider_embed sqlite_offline anonymous ''Auto'' ''   ''
       = Inl (ValueError ''Tom URL'')
   \<and> force_provider_embed sqlite_offline anonymous ''custom'' ''   '' = Inr (''custom'', [], [])"
proof -
  have h: "strip ''   '' = []" by code_simp
  have c1: "lower (strip ''youtube'') = ''youtube''" by code_simp
  have c2: "lower (strip ''Auto'') = ''auto''" by code_simp
  have c3: "lower (strip ''custom'') = ''custom''" by code_simp
  have m: "t anonymous ''empty_url'' = ''Tom URL''" by code_simp
  show ?thesis
    using h m force_provider_embed_empty_url [OF h, of "''youtube''" sqlite_offline anonymous]
      force_provider_embed_empty_url [OF h, of "''Auto''" sqlite_offline anonymous]
      force_provider_embed_empty_url [OF h, of "''custom''" sqlite_offline anonymous]
    by (simp add: c1 c2 c3)
qed

section \<open>Facts about the connection\<close>

text \<open>
  On a connection whose transaction has not failed every statement runs, on either backend.
\<close>

lemmas db_defs = db_bind_def db_return_def db_try_def execute_select_def execute_write_def
  commit_def rollback_def get_db_def close_db_def run_request_def

lemma execute_select_ok:
  "\<not> tx_failed db \<Longrightarrow> execute_select env qry db = (Inr (qry (working db)), db)"
  by (simp add: execute_select_def)

lemma execute_write_ok:
  "\<not> tx_failed db \<Longrightarrow> execute_write env upd db = (Inr (), db\<lparr>working := upd (working db)\<rparr>)"
  by (simp add: execute_write_def)

lemma commit_ok:
  "\<not> tx_failed db \<Longrightarrow> commit env db = (Inr (), db\<lparr>committed := working db\<rparr>)"
  by (simp add: commit_def)

lemma current_user_ok:
  "\<not> tx_failed db \<Longrightarrow>
     current_user env s db
       = (Inr (case user_id s of None \<Rightarrow> None
               | Some uid \<Rightarrow> if uid = 0 then None else find (\<lambda>u. u_id u = uid) (users (working db))),
          db)"
  by (simp add: current_user_def execute_select_ok db_return_def split: option.splits)

lemma get_video_playlist_ok:
  "\<not> tx_failed db \<Longrightarrow> \<exists>r. get_video_playlist env vid db = (Inr r, db)"
  by (simp add: get_video_playlist_def execute_select_ok)

lemma get_next_in_playlist_id_ok:
  "\<not> tx_failed db \<Longrightarrow>
     get_next_in_playlist_id env pid vid db
       = (Inr (case find (\<lambda>r. pi_playlist_id r = pid \<and> pi_video_id r = vid)
                         (playlist_items (working db)) of
                 None \<Rightarrow> None
               | Some row \<Rightarrow>
                   (case sort_key position
                           (filter (\<lambda>r. pi_playlist_id r = pid \<and> position r > position row)
                                   (playlist_items (working db))) of
                      [] \<Rightarrow> None
                    | nxt # _ \<Rightarrow> Some (pi_video_id nxt))),
          db)"
  by (simp add: get_next_in_playlist_id_def execute_select_ok db_bind_def db_return_def Let_def
           split: option.splits list.splits)

lemma find_map_update:
  assumes "\<And>v. v_id (f v) = v_id v"
  shows "find (\<lambda>v. v_id v = vid) (map (\<lambda>v. if v_id v = vid then f v else v) vs)
           = map_option f (find (\<lambda>v. v_id v = vid) vs)"
  using assms by (induction vs) auto

lemma select_video_increment_views:
  "select_video vid (increment_views vid st)
     = map_option (\<lambda>v. v\<lparr>views := views v + 1\<rparr>) (select_video vid st)"
  by (simp add: select_video_def increment_views_def find_map_update)

lemma select_video_upsert [simp]:
  "select_video vid (upsert_watch_history uid vid' now st) = select_video vid st"
  by (simp add: select_video_def upsert_watch_history_def)

lemma users_upsert [simp]: "users (upsert_watch_history uid vid now st) = users st"
  by (simp add: upsert_watch_history_def)

lemma users_increment_views [simp]: "users (increment_views vid st) = users st"
  by (simp add: increment_views_def)

lemma watch_history_increment_views [simp]:
  "watch_history (increment_views vid st) = watch_history st"
  by (simp add: increment_views_def)

lemma select_video_increment_likes:
  "select_video vid (increment_likes vid st)
     = map_option (\<lambda>v. v\<lparr>likes := likes v + 1\<rparr>) (select_video vid st)"
  by (simp add: select_video_def increment_likes_def find_map_update)

section \<open>Watch history\<close>

text \<open>
  For a signed-in user and an existing video, \<open>watch\<close> renders the page and leaves the store
  with the views counted (unless \<open>noview=1\<close>) and the history row upserted.
\<close>

lemma watch_signed_in:
  assumes "select_video video_id st = Some v"
    and "user_id (req_session req) = Some uid" and "uid \<noteq> 0"
    and "find (\<lambda>u. u_id u = uid) (users st) = Some u"
  shows "snd (run_request (watch env req video_id now) st)
           = upsert_watch_history uid video_id now
               (if or_empty (arg_noview req) \<noteq> ''1'' then increment_views video_id st else st)"
    and "\<exists>page. fst (run_request (watch env req video_id now) st) = Render_watch page"
proof -
  have uid: "u_id u = uid" using assms(4) by (auto simp: find_Some_iff)
  let ?st1 = "if or_empty (arg_noview req) \<noteq> ''1'' then increment_views video_id st else st"
  let ?db = "\<lparr>committed = upsert_watch_history uid video_id now ?st1,
              working = upsert_watch_history uid video_id now ?st1, tx_failed = False\<rparr>"
  obtain pl where pl: "get_video_playlist env video_id ?db = (Inr pl, ?db)"
    using get_video_playlist_ok [of ?db env video_id] by auto
  have "\<exists>page. run_request (watch env req video_id now) st
          = (Render_watch page, upsert_watch_history uid video_id now ?st1)"
    using assms uid pl
    by (cases pl)
       (auto simp: watch_def db_bind_def db_return_def run_request_def get_db_def close_db_def
          execute_select_ok execute_write_ok commit_ok current_user_ok
          get_next_in_playlist_id_ok select_video_increment_views)
  then show "snd (run_request (watch env req video_id now) st)
           = upsert_watch_history uid video_id now ?st1"
    and "\<exists>page. fst (run_request (watch env req video_id now) st) = Render_watch page"
    by auto
qed

lemma watch_history_upsert_fresh:
  assumes "\<not> list_ex (\<lambda>r. wh_user_id r = uid \<and> wh_video_id r = vid) (watch_history st)"
  shows "watch_history (upsert_watch_history uid vid now st)
           = watch_history st @ [\<lparr>wh_user_id = uid, wh_video_id = vid,
                                   last_watched_at = now, watch_count = 1\<rparr>]"
  using assms by (simp add: upsert_watch_history_def)

lemma map_update_absent:
  "\<not> list_ex P rows \<Longrightarrow> map (\<lambda>r. if P r then f r else r) rows = rows"
  by (induction rows) auto

lemma watch_history_upsert_again:
  assumes "\<not> list_ex (\<lambda>r. wh_user_id r = uid \<and> wh_video_id r = vid) rows"
    and "watch_history st = rows @ [\<lparr>wh_user_id = uid, wh_video_id = vid,
                                      last_watched_at = now1, watch_count = n\<rparr>]"
  shows "watch_history (upsert_watch_history uid vid now2 st)
           = rows @ [\<lparr>wh_user_id = uid, wh_video_id = vid,
                       last_watched_at = now2, watch_count = n + 1\<rparr>]"
  using assms map_update_absent [of "\<lambda>r. wh_user_id r = uid \<and> wh_video_id r = vid" rows]
  by (simp add: upsert_watch_history_def)

text \<open>
  Claim C6. Let a signed-in user watch an existing video twice, at \<open>now1\<close> and then at
  \<open>now2\<close>, starting from a store with no history row for the pair. The first watch appends
  the row with \<open>watch_count = 1\<close>. The second adds no row: it replaces that row's
  \<open>last_watched_at\<close> by \<open>now2\<close> and makes \<open>watch_count\<close> 2. The table then holds exactly
  one row for the pair. This holds on both backends and whatever \<open>noview\<close> is.
\<close>

theorem watch_twice_one_history_row:
  assumes "select_video video_id st = Some v"
    and "user_id (req_session req1) = Some uid" and "user_id (req_session req2) = Some uid"
    and "uid \<noteq> 0"
    and "find (\<lambda>u. u_id u = uid) (users st) = Some u"
    and "\<not> list_ex (\<lambda>r. wh_user_id r = uid \<and> wh_video_id r = video_id) (watch_history st)"
    and "st1 = snd (run_request (watch env req1 video_id now1) st)"
    and "st2 = snd (run_request (watch env req2 video_id now2) st1)"
  shows "watch_history st1
           = watch_history st @ [\<lparr>wh_user_id = uid, wh_video_id = video_id,
                                   last_watched_at = now1, watch_count = 1\<rparr>]
       \<and> watch_history st2
           = watch_history st @ [\<lparr>wh_user_id = uid, wh_video_id = video_id,
                                   last_watched_at = now2, watch_count = 2\<rparr>]
       \<and> filter (\<lambda>r. wh_user_id r = uid \<and> wh_video_id r = video_id) (watch_history st2)
           = [\<lparr>wh_user_id = uid, wh_video_id = video_id,
                last_watched_at = now2, watch_count = 2\<rparr>]"
proof -
  let ?views = "\<lambda>req s. if or_empty (arg_noview req) \<noteq> ''1'' then increment_views video_id s else s"
  have st1: "st1 = upsert_watch_history uid video_id now1 (?views req1 st)"
    using watch_signed_in(1) [OF assms(1,2,4,5)] assms(7) by simp
  have h1: "watch_history st1
           = watch_history st @ [\<lparr>wh_user_id = uid, wh_video_id = video_id,
                                   last_watched_at = now1, watch_count = 1\<rparr>]"
    using assms(6) by (simp add: st1 watch_history_upsert_fresh)
  have sel1: "select_video video_id st1 \<noteq> None"
    using assms(1) by (simp add: st1 select_video_increment_views)
  then obtain v1 where v1: "select_video video_id st1 = Some v1" by auto
  have users1: "find (\<lambda>u. u_id u = uid) (users st1) = Some u"
    using assms(5) by (simp add: st1)
  have st2: "st2 = upsert_watch_history uid video_id now2 (?views req2 st1)"
    using watch_signed_in(1) [OF v1 assms(3,4) users1] assms(8) by simp
  have "watch_history (?views req2 st1)
           = watch_history st @ [\<lparr>wh_user_id = uid, wh_video_id = video_id,
                                   last_watched_at = now1, watch_count = 1\<rparr>]"
    using h1 by simp
  from watch_history_upsert_again [OF assms(6) this]
  have h2: "watch_history st2
           = watch_history st @ [\<lparr>wh_user_id = uid, wh_video_id = video_id,
                                   last_watched_at = now2, watch_count = 2\<rparr>]"
    by (simp add: st2)
  have "filter (\<lambda>r. wh_user_id r = uid \<and> wh_video_id r = video_id) (watch_history st) = []"
    using assms(6) by (simp add: list_ex_iff filter_empty_conv)
  with h1 h2 show ?thesis by simp
qed

theorem watch_twice_one_history_row_witness:
  "select_video 1 example_store = Some \<lparr>v_id = 1, views = 0, likes = 0\<rparr>
   \<and> find (\<lambda>u. u_id u = 1) (users example_store)
       = Some \<lparr>u_id = 1, username = ''alice'', is_admin = 0\<rparr>
   \<and> \<not> list_ex (\<lambda>r. wh_user_id r = 1 \<and> wh_video_id r = 1) (watch_history example_store)
   \<and> watch_history
        (snd (run_request (watch sqlite_offline (page_request alice) 1 ''2024-05-01T10:05:00'')
           (snd (run_request (watch sqlite_offline (page_request alice) 1 ''2024-05-01T10:00:00'')
              example_store))))
       = [\<lparr>wh_user_id = 1, wh_video_id = 1, last_watched_at = ''2024-05-01T10:05:00'',
            watch_count = 2\<rparr>]"
proof -
  have h1: "select_video 1 example_store = Some \<lparr>v_id = 1, views = 0, likes = 0\<rparr>"
    by code_simp
  have h2: "user_id (req_session (page_request alice)) = Some 1"
    by (simp add: page_request_def alice_def)
  have h3: "(1::int) \<noteq> 0" by simp
  have h4: "find (\<lambda>u. u_id u = 1) (users example_store)
              = Some \<lparr>u_id = 1, username = ''alice'', is_admin = 0\<rparr>"
    by (simp add: example_store_def)
  have h5: "\<not> list_ex (\<lambda>r. wh_user_id r = 1 \<and> wh_video_id r = 1) (watch_history example_store)"
    by (simp add: example_store_def)
  have e: "watch_history example_store = []" by (simp add: example_store_def)
  show ?thesis
    using h1 h4 h5 e
      watch_twice_one_history_row [where env = sqlite_offline
        and ?now1.0 = "''2024-05-01T10:00:00''" and ?now2.0 = "''2024-05-01T10:05:00''",
        OF h1 h2 h2 h3 h4 h5 refl refl]
    by simp
qed

section \<open>Likes\<close>

text \<open>
  Claim C9. A like request for an existing video from a session without a user is answered
  with status 401 and the payload \<open>{"ok": false, "error": "login_required"}\<close> when the
  caller wants JSON, and otherwise with the flashed message \<open>like_requires_login\<close> and a
  redirect to the watch page. The store is left as it was: no \<open>video_likes\<close> row, no change
  of a counter.
\<close>

theorem like_requires_login:
  assumes "select_video video_id st = Some v"
    and "current_user env (req_session req) (get_db st) = (Inr None, get_db st)"
  shows "run_request (like env req video_id now) st
           = (if wants_json req
              then Jsonify [(''ok'', JBool False), (''error'', JStr ''login_required'')] 401
              else Redirect_watch video_id
                     [(t (req_session req) ''like_requires_login'', ''error'')],
              st)"
  using assms by (simp add: like_def db_defs)

theorem like_requires_login_witness:
  "select_video 1 example_store = Some \<lparr>v_id = 1, views = 0, likes = 0\<rparr>
   \<and> current_user sqlite_offline anonymous (get_db example_store) = (Inr None, get_db example_store)
   \<and> run_request (like sqlite_offline (ajax_request anonymous) 1 ''2024-05-01T10:00:00'')
        example_store
       = (Jsonify [(''ok'', JBool False), (''error'', JStr ''login_required'')] 401, example_store)
   \<and> run_request (like sqlite_offline (page_request anonymous) 1 ''2024-05-01T10:00:00'')
        example_store
       = (Redirect_watch 1 [(t anonymous ''like_requires_login'', ''error'')], example_store)"
proof -
  have h1: "select_video 1 example_store = Some \<lparr>v_id = 1, views = 0, likes = 0\<rparr>"
    by code_simp
  have h2: "current_user sqlite_offline (req_session (ajax_request anonymous)) (get_db example_store)
              = (Inr None, get_db example_store)"
    by code_simp
  have h3: "current_user sqlite_offline (req_session (page_request anonymous)) (get_db example_store)
              = (Inr None, get_db example_store)"
    by code_simp
  have j: "wants_json (ajax_request anonymous)" "\<not> wants_json (page_request anonymous)"
    by code_simp+
  have s: "req_session (ajax_request anonymous) = anonymous"
    "req_session (page_request anonymous) = anonymous"
    by (simp_all add: ajax_request_def page_request_def)
  show ?thesis
    using h1 h2 j s like_requires_login [OF h1 h2, of "''2024-05-01T10:00:00''"]
      like_requires_login [OF h1 h3, of "''2024-05-01T10:00:00''"]
    by simp
qed

text \<open>
  What a like request can do to the store: nothing, or append one \<open>video_likes\<close> row of this
  video for a user who had none and add one to this video's counter, both in one commit.
\<close>

lemma like_cases:
  "snd (run_request (like env req video_id now) st) = st
   \<or> (\<exists>uid. \<not> list_ex (\<lambda>r. vl_user_id r = uid \<and> vl_video_id r = video_id) (video_likes st)
         \<and> snd (run_request (like env req video_id now) st)
             = increment_likes video_id (st\<lparr>video_likes := video_likes st
                 @ [\<lparr>vl_user_id = uid, vl_video_id = video_id, vl_created_at = now\<rparr>]\<rparr>))"
  by (fastforce simp: like_def like_respond_def db_defs insert_video_like_def current_user_def
           split: option.splits sum.splits if_splits prod.splits)

lemma likes_consistent_step:
  assumes "likes_consistent st" and "vl_video_id row = video_id"
  shows "likes_consistent (increment_likes video_id (st\<lparr>video_likes := video_likes st @ [row]\<rparr>))"
  using assms by (auto simp: likes_consistent_def increment_likes_def list_all_iff)

text \<open>
  Claim C5. Every like request preserves the invariant that each video's \<open>likes\<close> counter
  equals the number of \<open>video_likes\<close> rows of that video. The request either leaves the
  store unchanged, or appends one row for the video (for a user without one) and adds one
  to the video's counter: the counter never moves without its row.
\<close>

theorem like_preserves_likes_consistent:
  assumes "likes_consistent st"
  shows "likes_consistent (snd (run_request (like env req video_id now) st))
       \<and> (snd (run_request (like env req video_id now) st) = st
          \<or> (\<exists>uid. \<not> list_ex (\<lambda>r. vl_user_id r = uid \<and> vl_video_id r = video_id) (video_likes st)
               \<and> snd (run_request (like env req video_id now) st)
                   = increment_likes video_id (st\<lparr>video_likes := video_likes st
                       @ [\<lparr>vl_user_id = uid, vl_video_id = video_id, vl_created_at = now\<rparr>]\<rparr>)))"
  using assms like_cases [of env req video_id now st] likes_consistent_step [of st _ video_id]
  by auto

theorem like_preserves_likes_consistent_witness:
  "likes_consistent example_store
   \<and> likes_consistent
       (snd (run_request (like sqlite_offline (ajax_request \<lparr>user_id = Some 1, lang = None\<rparr>) 1
                            ''2024-05-01T10:00:00'') example_store))
   \<and> snd (run_request (like sqlite_offline (ajax_request \<lparr>user_id = Some 1, lang = None\<rparr>) 1
                            ''2024-05-01T10:00:00'') example_store)
       = example_store\<lparr>videos := [\<lparr>v_id = 1, views = 0, likes = 1\<rparr>],
           video_likes := [\<lparr>vl_user_id = 1, vl_video_id = 1,
                             vl_created_at = ''2024-05-01T10:00:00''\<rparr>]\<rparr>"
proof -
  have h: "likes_consistent example_store" by code_simp
  have e: "snd (run_request (like sqlite_offline (ajax_request \<lparr>user_id = Some 1, lang = None\<rparr>) 1
                            ''2024-05-01T10:00:00'') example_store)
       = example_store\<lparr>videos := [\<lparr>v_id = 1, views = 0, likes = 1\<rparr>],
           video_likes := [\<lparr>vl_user_id = 1, vl_video_id = 1,
                             vl_created_at = ''2024-05-01T10:00:00''\<rparr>]\<rparr>"
    by code_simp
  show ?thesis
    using h e like_preserves_likes_consistent [OF h, of sqlite_offline
      "ajax_request \<lparr>user_id = Some 1, lang = None\<rparr>" 1 "''2024-05-01T10:00:00''"]
    by simp
qed

text \<open>
  On SQLite, liking twice is idempotent. Both requests are answered as a success, with
  \<open>liked = true\<close> and the counter one above its first value for a caller that wants JSON,
  and the second request leaves the store as the first one made it.
\<close>

lemma like_twice_sqlite:
  assumes "\<not> IS_PG env"
    and "select_video video_id st = Some v"
    and "user_id (req_session req1) = Some uid" and "user_id (req_session req2) = Some uid"
    and "uid \<noteq> 0"
    and "find (\<lambda>u. u_id u = uid) (users st) = Some u"
    and "\<not> list_ex (\<lambda>r. vl_user_id r = uid \<and> vl_video_id r = video_id) (video_likes st)"
    and "run_request (like env req1 video_id now1) st = (resp1, st1)"
    and "run_request (like env req2 video_id now2) st1 = (resp2, st2)"
  shows "select_video video_id st2 = Some (v\<lparr>likes := likes v + 1\<rparr>)
       \<and> resp1 = (if wants_json req1
                   then Jsonify [(''ok'', JBool True), (''video_id'', JInt video_id),
                                 (''likes'', JInt (likes v + 1)), (''liked'', JBool True)] 200
                   else Redirect_watch video_id [])
       \<and> resp2 = (if wants_json req2
                   then Jsonify [(''ok'', JBool True), (''video_id'', JInt video_id),
                                 (''likes'', JInt (likes v + 1)), (''liked'', JBool True)] 200
                   else Redirect_watch video_id [])
       \<and> st2 = st1"
proof -
  have uid: "u_id u = uid" using assms(6) by (auto simp: find_Some_iff)
  let ?st1 = "increment_likes video_id (st\<lparr>video_likes := video_likes st
                 @ [\<lparr>vl_user_id = uid, vl_video_id = video_id, vl_created_at = now1\<rparr>]\<rparr>)"
  have sel1: "select_video video_id ?st1 = Some (v\<lparr>likes := likes v + 1\<rparr>)"
    using assms(2) by (simp add: select_video_increment_likes) (simp add: select_video_def)
  have r1: "run_request (like env req1 video_id now1) st
              = (if wants_json req1
                 then Jsonify [(''ok'', JBool True), (''video_id'', JInt video_id),
                               (''likes'', JInt (likes v + 1)), (''liked'', JBool True)] 200
                 else Redirect_watch video_id [], ?st1)"
    using assms(1-3,5-7) uid sel1
    by (simp add: like_def like_respond_def db_defs insert_video_like_def current_user_def)
  then have st1: "st1 = ?st1" and resp1: "resp1 = (if wants_json req1
                 then Jsonify [(''ok'', JBool True), (''video_id'', JInt video_id),
                               (''likes'', JInt (likes v + 1)), (''liked'', JBool True)] 200
                 else Redirect_watch video_id [])"
    using assms(8) by auto
  have users1: "users ?st1 = users st" by (simp add: increment_likes_def)
  have liked1: "list_ex (\<lambda>r. vl_user_id r = uid \<and> vl_video_id r = video_id) (video_likes ?st1)"
    by (simp add: increment_likes_def)
  have r2: "run_request (like env req2 video_id now2) ?st1
              = (if wants_json req2
                 then Jsonify [(''ok'', JBool True), (''video_id'', JInt video_id),
                               (''likes'', JInt (likes v + 1)), (''liked'', JBool True)] 200
                 else Redirect_watch video_id [], ?st1)"
    using assms(1,4,5,6) uid sel1 users1 liked1
    by (simp add: like_def like_respond_def db_defs insert_video_like_def current_user_def
                  is_unique_violation_def)
  with assms(9) st1 have "st2 = st1" and "resp2 = (if wants_json req2
                 then Jsonify [(''ok'', JBool True), (''video_id'', JInt video_id),
                               (''likes'', JInt (likes v + 1)), (''liked'', JBool True)] 200
                 else Redirect_watch video_id [])"
    by auto
  with resp1 st1 sel1 show ?thesis by simp
qed

text \<open>
  Claim C4 says that both of two like requests for the same user and video report
  \<open>liked = true\<close>, with the counter incremented once. On PostgreSQL the second request does
  not: its \<open>INSERT\<close> raises \<open>UniqueViolation\<close>, the handler takes that for a success but
  leaves the transaction aborted (the branch for other errors does call \<open>db.rollback()\<close>),
  and the following \<open>SELECT likes\<close> raises \<open>InFailedSqlTransaction\<close>, which leaves the
  handler. The counter stays at one.
\<close>

theorem like_repeat_on_postgres:
  "run_request (like postgres_offline (ajax_request alice) 1 ''2024-05-01T10:00:00'') example_store
     = (Jsonify [(''ok'', JBool True), (''video_id'', JInt 1), (''likes'', JInt 1),
                 (''liked'', JBool True)] 200,
        example_store\<lparr>videos := [\<lparr>v_id = 1, views = 0, likes = 1\<rparr>],
          video_likes := [\<lparr>vl_user_id = 1, vl_video_id = 1,
                            vl_created_at = ''2024-05-01T10:00:00''\<rparr>]\<rparr>)
   \<and> run_request (like postgres_offline (ajax_request alice) 1 ''2024-05-01T10:00:05'')
        (example_store\<lparr>videos := [\<lparr>v_id = 1, views = 0, likes = 1\<rparr>],
           video_likes := [\<lparr>vl_user_id = 1, vl_video_id = 1,
                             vl_created_at = ''2024-05-01T10:00:00''\<rparr>]\<rparr>)
     = (Internal_Server_Error InFailedSqlTransaction,
        example_store\<lparr>videos := [\<lparr>v_id = 1, views = 0, likes = 1\<rparr>],
          video_likes := [\<lparr>vl_user_id = 1, vl_video_id = 1,
                            vl_created_at = ''2024-05-01T10:00:00''\<rparr>]\<rparr>)"
  by code_simp

section \<open>Comments\<close>

text \<open>
  Claim C8, as the code has it. For an existing video and a body that is not blank, \<open>comment\<close>
  stores one row and redirects with the message \<open>comment_posted\<close>. The stored author is the
  first 50 characters of: the trimmed author field if it is not empty, else the signed-in
  user's username if there is one and it is not empty, else the placeholder \<open>t("anon")\<close> of
  the session's language. The stored body is the first 1000 characters of the trimmed body.
  Nothing is raised for a longer author or body.
\<close>

theorem comment_author_and_truncation:
  assumes "select_video video_id st = Some v"
    and "current_user env (req_session req) (get_db st) = (Inr user, get_db st)"
    and "strip (or_empty (form_body req)) \<noteq> []"
    and "resolved = (if strip (or_empty (form_author req)) \<noteq> []
                     then strip (or_empty (form_author req))
                     else (case user of
                             Some u \<Rightarrow> if username u \<noteq> [] then username u
                                       else t (req_session req) ''anon''
                           | None \<Rightarrow> t (req_session req) ''anon''))"
  shows "run_request (comment env req video_id now) st
           = (Redirect_watch video_id [(t (req_session req) ''comment_posted'', ''ok'')],
              st\<lparr>comments := comments st
                   @ [\<lparr>c_video_id = video_id, c_user_id = map_option u_id user,
                        author = take 50 resolved,
                        body = take 1000 (strip (or_empty (form_body req))),
                        c_created_at = now\<rparr>]\<rparr>)
       \<and> length (take 50 resolved) \<le> 50
       \<and> length (take 1000 (strip (or_empty (form_body req)))) \<le> 1000"
  using assms
  by (cases user)
     (simp_all add: comment_def db_bind_def db_return_def run_request_def close_db_def
        execute_select_ok execute_write_ok commit_ok get_db_def Let_def)

theorem comment_author_and_truncation_witness:
  "select_video 1 example_store = Some \<lparr>v_id = 1, views = 0, likes = 0\<rparr>
   \<and> strip (or_empty (form_body (comment_form alice ''  '' '' nice video ''))) \<noteq> []
   \<and> run_request (comment sqlite_offline (comment_form alice ''  '' '' nice video '') 1
                     ''2024-05-01T10:00:00'') example_store
       = (Redirect_watch 1 [(''Comment posted.'', ''ok'')],
          example_store\<lparr>comments :=
            [\<lparr>c_video_id = 1, c_user_id = Some 1, author = ''alice'', body = ''nice video'',
               c_created_at = ''2024-05-01T10:00:00''\<rparr>]\<rparr>)"
proof -
  let ?req = "comment_form alice ''  '' '' nice video ''"
  have h1: "select_video 1 example_store = Some \<lparr>v_id = 1, views = 0, likes = 0\<rparr>"
    by code_simp
  have h2: "current_user sqlite_offline (req_session ?req) (get_db example_store)
              = (Inr (Some \<lparr>u_id = 1, username = ''alice'', is_admin = 0\<rparr>), get_db example_store)"
    by code_simp
  have h3: "strip (or_empty (form_body ?req)) \<noteq> []" by code_simp
  have b: "strip (or_empty (form_body ?req)) = ''nice video''" by code_simp
  have a: "strip (or_empty (form_author ?req)) = []" by code_simp
  have m: "t (req_session ?req) ''comment_posted'' = ''Comment posted.''" by code_simp
  have c: "comments example_store = []" by (simp add: example_store_def)
  show ?thesis
    using h1 h3 comment_author_and_truncation [OF h1 h2 h3 refl, of "''2024-05-01T10:00:00''"]
    by (simp add: a b m c)
qed

text \<open>
  The claim names the literal \<open>Anonymous\<close>. That is the English entry; a session without a
  language gets the Swedish one, and an anonymous comment is stored under \<open>Anonym\<close>.
\<close>

theorem comment_author_and_truncation_counterexample:
  "run_request (comment sqlite_offline (comment_form anonymous [] ''hi'') 1
                  ''2024-05-01T10:00:00'') example_store
     = (Redirect_watch 1 [(''Kommentar postad.'', ''ok'')],
        example_store\<lparr>comments :=
          [\<lparr>c_video_id = 1, c_user_id = None, author = ''Anonym'', body = ''hi'',
             c_created_at = ''2024-05-01T10:00:00''\<rparr>]\<rparr>)
   \<and> ''Anonym'' \<noteq> ''Anonymous''"
  by code_simp

section \<open>Playlist navigator\<close>

lemma sort_key_head_least:
  assumes "sort_key f xs = y # ys"
  shows "y \<in> set xs \<and> (\<forall>x \<in> set xs. f y \<le> f x)"
proof -
  have "set (sort_key f xs) = set xs" by simp
  with assms have mem: "set xs = insert y (set ys)" by simp
  have "sorted (map f (sort_key f xs))" by (rule sorted_sort_key)
  with assms have "\<forall>z \<in> set ys. f y \<le> f z" by simp
  with mem show ?thesis by auto
qed

lemma find_unique_row:
  assumes "distinct (map pi_video_id (filter (\<lambda>r. pi_playlist_id r = pid) rows))"
    and "cur \<in> set rows" and "pi_playlist_id cur = pid" and "pi_video_id cur = vid"
  shows "find (\<lambda>r. pi_playlist_id r = pid \<and> pi_video_id r = vid) rows = Some cur"
  using assms
proof (induction rows)
  case Nil
  then show ?case by simp
next
  case (Cons r rows)
  then show ?case by (auto simp: image_iff split: if_splits)
qed

text \<open>
  Claim C7. Let \<open>items\<close> be the rows of the playlist, with no video twice (the constraint
  \<open>UNIQUE(playlist_id, video_id)\<close>). If the current video is not among them,
  \<open>get_next_in_playlist_id\<close> returns \<open>None\<close>. If it is, at the row \<open>cur\<close>: when some item has a
  greater position, the result is the video of an item whose position is greater than that
  of \<open>cur\<close> and least among those; when none has, the result is \<open>None\<close>, so the last item
  does not wrap around to the first.
\<close>

theorem get_next_in_playlist_id_next:
  assumes "\<not> tx_failed db"
    and "items = filter (\<lambda>r. pi_playlist_id r = playlist_id) (playlist_items (working db))"
    and "distinct (map pi_video_id items)"
  shows "(current_video_id \<notin> pi_video_id ` set items \<longrightarrow>
            get_next_in_playlist_id env playlist_id current_video_id db = (Inr None, db))
       \<and> (\<forall>cur \<in> set items. pi_video_id cur = current_video_id \<longrightarrow>
            (if \<exists>r \<in> set items. position cur < position r
             then \<exists>nxt \<in> set items.
                    get_next_in_playlist_id env playlist_id current_video_id db
                      = (Inr (Some (pi_video_id nxt)), db)
                    \<and> position cur < position nxt
                    \<and> (\<forall>r \<in> set items. position cur < position r \<longrightarrow> position nxt \<le> position r)
             else get_next_in_playlist_id env playlist_id current_video_id db = (Inr None, db)))"
proof (intro conjI impI ballI)
  assume "current_video_id \<notin> pi_video_id ` set items"
  then have "find (\<lambda>r. pi_playlist_id r = playlist_id \<and> pi_video_id r = current_video_id)
               (playlist_items (working db)) = None"
    using assms(2) by (auto simp: find_None_iff image_iff)
  then show "get_next_in_playlist_id env playlist_id current_video_id db = (Inr None, db)"
    using assms(1) by (simp add: get_next_in_playlist_id_ok)
next
  fix cur
  assume cur: "cur \<in> set items" "pi_video_id cur = current_video_id"
  let ?later = "filter (\<lambda>r. pi_playlist_id r = playlist_id \<and> position r > position cur)
                  (playlist_items (working db))"
  have found: "find (\<lambda>r. pi_playlist_id r = playlist_id \<and> pi_video_id r = current_video_id)
                 (playlist_items (working db)) = Some cur"
    using find_unique_row [of playlist_id "playlist_items (working db)" cur current_video_id]
      assms(2,3) cur by simp
  have later: "set ?later = {r \<in> set items. position cur < position r}"
    using assms(2) by auto
  show "if \<exists>r \<in> set items. position cur < position r
        then \<exists>nxt \<in> set items.
               get_next_in_playlist_id env playlist_id current_video_id db
                 = (Inr (Some (pi_video_id nxt)), db)
               \<and> position cur < position nxt
               \<and> (\<forall>r \<in> set items. position cur < position r \<longrightarrow> position nxt \<le> position r)
        else get_next_in_playlist_id env playlist_id current_video_id db = (Inr None, db)"
  proof (cases "sort_key position ?later")
    case Nil
    then have "set ?later = {}" by (metis set_sort list.set(1))
    with later have none: "\<not> (\<exists>r \<in> set items. position cur < position r)" by auto
    have "get_next_in_playlist_id env playlist_id current_video_id db = (Inr None, db)"
      using assms(1) found Nil by (simp add: get_next_in_playlist_id_ok)
    with none show ?thesis by simp
  next
    case (Cons nxt rest)
    from sort_key_head_least [OF Cons] later
    have nxt: "nxt \<in> set items" "position cur < position nxt"
      "\<forall>r \<in> set items. position cur < position r \<longrightarrow> position nxt \<le> position r"
      by auto
    have "get_next_in_playlist_id env playlist_id current_video_id db
            = (Inr (Some (pi_video_id nxt)), db)"
      using assms(1) found Cons by (simp add: get_next_in_playlist_id_ok)
    with nxt show ?thesis by auto
  qed
qed

theorem get_next_in_playlist_id_next_witness:
  "\<not> tx_failed (get_db playlist_store)
   \<and> distinct (map pi_video_id
        (filter (\<lambda>r. pi_playlist_id r = 1) (playlist_items (working (get_db playlist_store)))))
   \<and> get_next_in_playlist_id sqlite_offline 1 13 (get_db playlist_store)
       = (Inr None, get_db playlist_store)
   \<and> (\<exists>nxt \<in> set (filter (\<lambda>r. pi_playlist_id r = 1)
                       (playlist_items (working (get_db playlist_store)))).
         get_next_in_playlist_id sqlite_offline 1 10 (get_db playlist_store)
           = (Inr (Some (pi_video_id nxt)), get_db playlist_store)
         \<and> position nxt = 3)
   \<and> get_next_in_playlist_id sqlite_offline 1 11 (get_db playlist_store)
       = (Inr None, get_db playlist_store)"
proof -
  let ?items = "[\<lparr>pi_playlist_id = 1, pi_video_id = 10, position = 1\<rparr>,
                 \<lparr>pi_playlist_id = 1, pi_video_id = 11, position = 5\<rparr>,
                 \<lparr>pi_playlist_id = 1, pi_video_id = 12, position = 3\<rparr>]"
  have h1: "\<not> tx_failed (get_db playlist_store)" by (simp add: get_db_def)
  have h2: "?items = filter (\<lambda>r. pi_playlist_id r = 1)
                       (playlist_items (working (get_db playlist_store)))"
    by (simp add: get_db_def playlist_store_def)
  have h3: "distinct (map pi_video_id ?items)" by simp
  note th = get_next_in_playlist_id_next [OF h1 h2 h3, of _ sqlite_offline]
  have a: "get_next_in_playlist_id sqlite_offline 1 13 (get_db playlist_store)
             = (Inr None, get_db playlist_store)"
    using th [of 13] by simp
  have b: "\<exists>nxt \<in> set ?items.
         get_next_in_playlist_id sqlite_offline 1 10 (get_db playlist_store)
           = (Inr (Some (pi_video_id nxt)), get_db playlist_store)
         \<and> position nxt = 3"
    using th [of 10] by auto
  have c: "get_next_in_playlist_id sqlite_offline 1 11 (get_db playlist_store)
             = (Inr None, get_db playlist_store)"
    using th [of 11] by simp
  show ?thesis using h1 h3 a b c unfolding h2 [symmetric] by simp
qed

end
